theory Spec2Isabelle
  imports Complex_Main "HOL-Library.Sublist" "HOL-Library.Log_Nat"
begin

section \<open>JavaScript numbers\<close>

text \<open>
  A JavaScript number is an IEEE 754 double. A finite double is modelled by the rational
  number it denotes, so that two numbers are equal when they denote the same value (as
  \<^verbatim>\<open>===\<close> decides, which also identifies the two zeros). An arithmetic operation
  computes the exact result and rounds it to the nearest double, ties to the even
  significand: \<open>round_to_double\<close>. For a value \<open>q\<close> with \<open>2 ^ e \<le> \<bar>q\<bar> < 2 ^ (e + 1)\<close> the
  doubles around \<open>q\<close> are the multiples of \<open>2 ^ (e - 52)\<close> (53 significant bits), and of
  \<open>2 ^ (- 1074)\<close> below the smallest normal exponent \<open>- 1022\<close>. Results of magnitude
  \<open>2 ^ 1024\<close> and beyond, where a double overflows to an infinity, and NaN are outside
  the model.
\<close>

type_synonym number = rat

text \<open>The exponent \<open>e\<close> with \<open>2 ^ e \<le> q < 2 ^ (e + 1)\<close>, for a positive \<open>q\<close>.\<close>

definition floor_log2 :: "rat \<Rightarrow> int" where
  "floor_log2 q =
     (if 1 \<le> q then bitlen \<lfloor>q\<rfloor> - 1
      else let k = bitlen \<lfloor>1 / q\<rfloor> - 1
           in if q = 2 powi (- k) then - k else - (k + 1))"

definition round_half_even :: "rat \<Rightarrow> int" where
  "round_half_even r =
     (let f = \<lfloor>r\<rfloor>; d = r - of_int f
      in if d < 1 / 2 then f else if 1 / 2 < d then f + 1
         else if even f then f else f + 1)"

definition round_to_double :: "rat \<Rightarrow> number" where
  "round_to_double q =
     (if q = 0 then 0
      else let e = floor_log2 \<bar>q\<bar>; u = 2 powi (max e (- 1022) - 52)
           in of_int (round_half_even (q / u)) * u)"

text \<open>The subtraction \<^verbatim>\<open>a - b\<close> of two numbers.\<close>

definition number_sub :: "number \<Rightarrow> number \<Rightarrow> number" where
  "number_sub a b = round_to_double (a - b)"

section \<open>Coordinate transformation (src/index.ts, lines 192-287)\<close>

text \<open>
  The source's string union \<^verbatim>\<open>Orientation\<close>:
  "auto" | "portrait" | "landscape_right" | "upside_down" | "landscape_left".
\<close>

datatype Orientation = Auto | Portrait | Landscape_right | Upside_down | Landscape_left

text \<open>
  The interface \<^verbatim>\<open>Frame {x, y, width, height}\<close> of four numbers. The fields carry the
  prefix \<open>frame_\<close> so that \<open>x\<close> and \<open>y\<close> stay usable as variables.
\<close>

record Frame =
  frame_x :: number
  frame_y :: number
  frame_width :: number
  frame_height :: number

definition getEffectiveOrientation :: "Orientation \<Rightarrow> number \<Rightarrow> number \<Rightarrow> Orientation" where
  "getEffectiveOrientation orientation screenWidth screenHeight =
     (if orientation \<noteq> Auto then orientation
      else if screenWidth > screenHeight then Landscape_right else Portrait)"

text \<open>
  An expression \<^verbatim>\<open>a - b - c\<close> subtracts from the left: \<^verbatim>\<open>(a - b) - c\<close>, each
  subtraction rounded.
\<close>

fun transformFrame :: "Frame \<Rightarrow> Orientation \<Rightarrow> number \<Rightarrow> number \<Rightarrow> Frame" where
  "transformFrame frame Portrait screenW screenH = frame"
| "transformFrame frame Auto screenW screenH = frame"
| "transformFrame frame Landscape_right screenW screenH =
     \<lparr>frame_x = frame_y frame,
      frame_y = number_sub (number_sub screenW (frame_x frame)) (frame_width frame),
      frame_width = frame_height frame,
      frame_height = frame_width frame\<rparr>"
| "transformFrame frame Landscape_left screenW screenH =
     \<lparr>frame_x = number_sub (number_sub screenH (frame_y frame)) (frame_height frame),
      frame_y = frame_x frame,
      frame_width = frame_height frame,
      frame_height = frame_width frame\<rparr>"
| "transformFrame frame Upside_down screenW screenH =
     \<lparr>frame_x = number_sub (number_sub screenW (frame_x frame)) (frame_width frame),
      frame_y = number_sub (number_sub screenH (frame_y frame)) (frame_height frame),
      frame_width = frame_width frame,
      frame_height = frame_height frame\<rparr>"

text \<open>
  The inverse orientation, in the words of the specification's round-trip law:
  landscape right and landscape left undo each other, upside down undoes itself.
  Portrait and auto are the identity transform, hence their own inverses.
\<close>

fun inverse_orientation :: "Orientation \<Rightarrow> Orientation" where
  "inverse_orientation Landscape_right = Landscape_left"
| "inverse_orientation Landscape_left = Landscape_right"
| "inverse_orientation Upside_down = Upside_down"
| "inverse_orientation Portrait = Portrait"
| "inverse_orientation Auto = Auto"

text \<open>The root frame of a screen that reports the dimensions \<open>screenW\<close>, \<open>screenH\<close>.\<close>

definition root_frame :: "number \<Rightarrow> number \<Rightarrow> Frame" where
  "root_frame screenW screenH =
     \<lparr>frame_x = 0, frame_y = 0, frame_width = screenW, frame_height = screenH\<rparr>"

text \<open>
  A rectangle is on the grid of step \<open>2 ^ (- k)\<close> when its coordinates are multiples of
  that step of magnitude at most \<open>2 ^ 51\<close> steps. With \<open>k = 0\<close> these are the integers up
  to \<open>2 ^ 51\<close>, with \<open>k = 1\<close> the half points, and so on.
\<close>

definition grid_number :: "nat \<Rightarrow> number \<Rightarrow> bool" where
  "grid_number k q = (of_int \<lfloor>q * 2 ^ k\<rfloor> = q * 2 ^ k \<and> \<bar>q * 2 ^ k\<bar> \<le> 2 ^ 51)"

definition grid_frame :: "nat \<Rightarrow> Frame \<Rightarrow> bool" where
  "grid_frame k frame =
     (grid_number k (frame_x frame) \<and> grid_number k (frame_y frame)
      \<and> grid_number k (frame_width frame) \<and> grid_number k (frame_height frame))"

subsection \<open>\<^verbatim>\<open>formatAXFrame\<close>\<close>

text \<open>
  The template literal converts each of the four numbers to a string with the
  language's own conversion of a number, which is taken as the parameter \<open>toString\<close>.
\<close>

definition formatAXFrame :: "(number \<Rightarrow> string) \<Rightarrow> Frame \<Rightarrow> string" where
  "formatAXFrame toString frame =
     ''{{'' @ toString (frame_x frame) @ '', '' @ toString (frame_y frame)
     @ ''}, {'' @ toString (frame_width frame) @ '', ''
     @ toString (frame_height frame) @ ''}}''"

subsection \<open>The accessibility tree, \<^verbatim>\<open>transformElementTree\<close>\<close>

text \<open>
  A node of the snapshot that \<^verbatim>\<open>idb ui describe-all --json --nested\<close> prints. The
  transform reads three fields: \<open>frame\<close> (absent or a frame), \<open>AXFrame\<close> (absent or a
  string) and \<open>children\<close> (absent or an array of nodes). Every other field of the JSON
  object is carried in \<open>fields\<close>, of any type, since the code copies them with a spread.
\<close>

datatype 'a element =
  Element (frame: "Frame option") (AXFrame: "string option")
    (children: "'a element list option") (fields: 'a)

text \<open>
  The condition \<^verbatim>\<open>el.frame && (el.frame.width || el.frame.height)\<close>: a number is
  truthy when it is not zero.
\<close>

definition has_extent :: "Frame option \<Rightarrow> bool" where
  "has_extent fr = (case fr of None \<Rightarrow> False
     | Some f \<Rightarrow> frame_width f \<noteq> 0 \<or> frame_height f \<noteq> 0)"

primrec transformElement ::
    "(number \<Rightarrow> string) \<Rightarrow> Orientation \<Rightarrow> number \<Rightarrow> number \<Rightarrow> 'a element \<Rightarrow> 'a element" where
  "transformElement toString orientation screenW screenH (Element fr ax ch other) =
     Element
       (if has_extent fr
        then map_option (\<lambda>f. transformFrame f orientation screenW screenH) fr else fr)
       (if has_extent fr
        then map_option
               (\<lambda>f. formatAXFrame toString (transformFrame f orientation screenW screenH)) fr
        else ax)
       (map_option (map (transformElement toString orientation screenW screenH)) ch)
       other"

definition transformElementTree ::
    "(number \<Rightarrow> string) \<Rightarrow> 'a element list \<Rightarrow> Orientation \<Rightarrow> number \<Rightarrow> number
       \<Rightarrow> 'a element list" where
  "transformElementTree toString elements orientation screenW screenH =
     map (transformElement toString orientation screenW screenH) elements"

text \<open>
  Two observations of a tree, used to state what the transform changes. \<open>erase_frames\<close>
  forgets the \<open>frame\<close> and \<open>AXFrame\<close> of every node and keeps everything else: the
  other fields, the children and their order. \<open>flatten\<close> lists the nodes of a tree in
  traversal order (a node before its children, children left to right).
\<close>

fun erase_frames :: "'a element \<Rightarrow> 'a element" where
  "erase_frames (Element fr ax ch other) =
     Element None None (map_option (map erase_frames) ch) other"

fun flatten :: "'a element \<Rightarrow> 'a element list" where
  "flatten (Element fr ax ch other) =
     Element fr ax ch other
     # (case ch of None \<Rightarrow> [] | Some cs \<Rightarrow> concat (map flatten cs))"

text \<open>
  What the specification says happens to the \<open>frame\<close> and \<open>AXFrame\<close> of one node: a
  node without a frame, or with a frame of width 0 and height 0, keeps both; any other
  node gets the transformed frame and its string serialization.
\<close>

definition rewritten_frame ::
    "(number \<Rightarrow> string) \<Rightarrow> Orientation \<Rightarrow> number \<Rightarrow> number \<Rightarrow> 'a element
       \<Rightarrow> Frame option \<times> string option" where
  "rewritten_frame toString orientation screenW screenH el =
     (case frame el of
        None \<Rightarrow> (None, AXFrame el)
      | Some f \<Rightarrow>
          if frame_width f = 0 \<and> frame_height f = 0 then (Some f, AXFrame el)
          else (Some (transformFrame f orientation screenW screenH),
                Some (formatAXFrame toString
                        (transformFrame f orientation screenW screenH))))"

section \<open>Simulator lifecycle (src/index.ts, lines 83-190 and 324-541)\<close>

subsection \<open>The registry \<^verbatim>\<open>managedSimulators\<close>\<close>

record managed_simulator =
  udid :: string
  name :: string
  owned :: bool
  orientation :: Orientation

text \<open>
  A JavaScript \<^verbatim>\<open>Map\<close> keeps its entries in insertion order, and the shutdown loop
  iterates in that order, so the registry is a list of entries. \<^verbatim>\<open>get\<close> returns the
  entry of a key, \<^verbatim>\<open>set\<close> replaces the value of a present key in place and appends
  an absent one, \<^verbatim>\<open>delete\<close> removes the key, \<^verbatim>\<open>clear\<close> removes everything.
\<close>

type_synonym registry = "(string \<times> managed_simulator) list"

definition managedSimulators_get :: "registry \<Rightarrow> string \<Rightarrow> managed_simulator option" where
  "managedSimulators_get reg sid = map_of reg sid"

fun managedSimulators_set :: "registry \<Rightarrow> string \<Rightarrow> managed_simulator \<Rightarrow> registry" where
  "managedSimulators_set [] sid sim = [(sid, sim)]"
| "managedSimulators_set ((k, v) # rest) sid sim =
     (if k = sid then (sid, sim) # rest else (k, v) # managedSimulators_set rest sid sim)"

definition managedSimulators_delete :: "registry \<Rightarrow> string \<Rightarrow> registry" where
  "managedSimulators_delete reg sid = filter (\<lambda>entry. fst entry \<noteq> sid) reg"

definition managedSimulators_clear :: "registry \<Rightarrow> registry" where
  "managedSimulators_clear reg = []"

subsection \<open>The external collaborators\<close>

text \<open>
  The commands the lifecycle code runs through \<^verbatim>\<open>run\<close>, in the order of their first
  use: \<^verbatim>\<open>xcrun simctl list devicetypes -j\<close>, \<^verbatim>\<open>list runtimes -j\<close>,
  \<^verbatim>\<open>create name type runtime\<close>, \<^verbatim>\<open>boot udid\<close>, \<^verbatim>\<open>open -a Simulator.app\<close>,
  \<^verbatim>\<open>shutdown udid\<close>, \<^verbatim>\<open>delete udid\<close> and \<^verbatim>\<open>list devices -j\<close>. Every operation
  returns the list of the commands it issued, in order.
\<close>

datatype command =
    ListDeviceTypes
  | ListRuntimes
  | Create string string string
  | Boot string
  | OpenSimulatorApp
  | Shutdown string
  | Delete string
  | ListDevices

record devicetype =
  dt_name :: string
  dt_identifier :: string

record runtime =
  rt_name :: string
  rt_identifier :: string
  isAvailable :: bool

record device =
  dev_udid :: string
  dev_name :: string
  dev_state :: string

text \<open>
  The outcome of each command during one operation. \<open>Inl m\<close>: the promise of
  \<^verbatim>\<open>run\<close> was rejected (or the output did not parse) with an Error of message \<open>m\<close>;
  \<open>Inr v\<close>: the command succeeded, with the parsed output \<open>v\<close> (for \<^verbatim>\<open>create\<close>
  the trimmed standard output, which is the new UDID). The device listing is the list
  \<^verbatim>\<open>Object.values(data.devices)\<close>: one list of devices per runtime.
\<close>

record world =
  simctl_list_devicetypes :: "string + devicetype list"
  simctl_list_runtimes :: "string + runtime list"
  simctl_create :: "string \<Rightarrow> string \<Rightarrow> string \<Rightarrow> string + string"
  simctl_boot :: "string \<Rightarrow> string + unit"
  open_Simulator_app :: "string + unit"
  simctl_shutdown :: "string \<Rightarrow> string + unit"
  simctl_delete :: "string \<Rightarrow> string + unit"
  simctl_list_devices :: "string + device list list"

subsection \<open>Errors and results\<close>

text \<open>
  The code throws \<^verbatim>\<open>Error(message)\<close>. Each throw site is tagged with its kind in the
  taxonomy of the specification; a rejected command is a \<open>CollaboratorError\<close>.
\<close>

datatype error_kind =
    AlreadyActive
  | NotActive
  | NoMatchingDeviceType
  | NoAvailableRuntime
  | InstanceNotFound
  | InstanceNotBooted
  | CollaboratorError

type_synonym thrown = "error_kind \<times> string"

record tool_result =
  isError :: bool
  result_text :: string

definition quoted :: "string \<Rightarrow> string" where
  "quoted s = CHR 0x22 # s @ [CHR 0x22]"

definition troubleshootingLink :: string where
  "troubleshootingLink =
     ''[Troubleshooting Guide](https://github.com/joshuayoes/ios-simulator-mcp/blob/main/TROUBLESHOOTING.md)''
     @ '' | ''
     @ ''[Plain Text Guide for LLMs](https://raw.githubusercontent.com/joshuayoes/ios-simulator-mcp/refs/heads/main/TROUBLESHOOTING.md)''"

definition errorWithTroubleshooting :: "string \<Rightarrow> string" where
  "errorWithTroubleshooting message =
     message @ [CHR 0x0A, CHR 0x0A] @ ''For help, see the '' @ troubleshootingLink"

text \<open>
  The \<^verbatim>\<open>try\<close>/\<^verbatim>\<open>catch\<close> of a tool handler: a thrown Error becomes an error result
  whose text is the prefix of the tool, the message and the troubleshooting pointer.
\<close>

definition handler_result :: "string \<Rightarrow> thrown + string \<Rightarrow> tool_result" where
  "handler_result pre r =
     (case r of
        Inl (kind, message) \<Rightarrow>
          \<lparr>isError = True, result_text = errorWithTroubleshooting (pre @ message)\<rparr>
      | Inr t \<Rightarrow> \<lparr>isError = False, result_text = t\<rparr>)"

subsection \<open>String helpers\<close>

text \<open>
  Strings are modelled as lists of ASCII characters. \<^verbatim>\<open>toLowerCase\<close> maps the
  letters A to Z to a to z; \<^verbatim>\<open>replace(/\s+/g, "-")\<close> puts one hyphen for every
  maximal run of white space (space, tab, line feed, vertical tab, form feed, carriage
  return); \<^verbatim>\<open>join\<close> concatenates with a separator.
\<close>

definition toLowerCase :: "string \<Rightarrow> string" where
  "toLowerCase s =
     map (\<lambda>c. case map_of (zip ''ABCDEFGHIJKLMNOPQRSTUVWXYZ'' ''abcdefghijklmnopqrstuvwxyz'') c of
                 None \<Rightarrow> c | Some l \<Rightarrow> l) s"

definition is_space :: "char \<Rightarrow> bool" where
  "is_space c = (c \<in> set [CHR 0x20, CHR 0x09, CHR 0x0A, CHR 0x0B, CHR 0x0C, CHR 0x0D])"

fun replace_spaces :: "bool \<Rightarrow> string \<Rightarrow> string" where
  "replace_spaces in_run [] = []"
| "replace_spaces in_run (c # cs) =
     (if is_space c
      then (if in_run then replace_spaces True cs else CHR ''-'' # replace_spaces True cs)
      else c # replace_spaces False cs)"

fun join :: "string \<Rightarrow> string list \<Rightarrow> string" where
  "join sep [] = []"
| "join sep [s] = s"
| "join sep (s # t # rest) = s @ sep @ join sep (t # rest)"

subsection \<open>Device provisioning: \<^verbatim>\<open>findDeviceType\<close>, \<^verbatim>\<open>findLatestRuntime\<close>\<close>

definition findDeviceType :: "world \<Rightarrow> string \<Rightarrow> thrown + devicetype" where
  "findDeviceType w keyword =
     (case simctl_list_devicetypes w of
        Inl m \<Rightarrow> Inl (CollaboratorError, m)
      | Inr deviceTypes \<Rightarrow>
          let lowerKeyword = toLowerCase keyword;
              matches = filter (\<lambda>dt. sublist lowerKeyword (toLowerCase (dt_name dt))) deviceTypes
          in if length matches = 0
             then Inl (NoMatchingDeviceType,
                    ''No device type found matching '' @ quoted keyword
                    @ ''. Available types: '' @ join '', '' (map dt_name deviceTypes))
             else Inr (matches ! 0))"

text \<open>The filter of \<^verbatim>\<open>findLatestRuntime\<close>: \<^verbatim>\<open>r.isAvailable && r.name.startsWith("iOS")\<close>.\<close>

definition available_ios :: "runtime \<Rightarrow> bool" where
  "available_ios r = (isAvailable r \<and> prefix ''iOS'' (rt_name r))"

definition findLatestRuntime :: "world \<Rightarrow> thrown + string" where
  "findLatestRuntime w =
     (case simctl_list_runtimes w of
        Inl m \<Rightarrow> Inl (CollaboratorError, m)
      | Inr runtimes \<Rightarrow>
          let iosRuntimes = filter available_ios runtimes
          in if length iosRuntimes = 0
             then Inl (NoAvailableRuntime,
                    ''No available iOS runtimes found. Install one via Xcode.'')
             else Inr (rt_identifier (iosRuntimes ! (length iosRuntimes - 1))))"

subsection \<open>The shutdown sweep: \<^verbatim>\<open>cleanupAllSimulators\<close>\<close>

text \<open>
  The loop over the registry: an entry that is not owned is skipped; for an owned one
  the sweep runs shutdown, then delete, each in a \<^verbatim>\<open>try\<close> whose \<^verbatim>\<open>catch\<close> is
  empty, so the outcome of neither command changes what follows. The function returns
  the commands issued; afterwards the registry is cleared.
\<close>

fun cleanup_loop :: "world \<Rightarrow> registry \<Rightarrow> command list" where
  "cleanup_loop w [] = []"
| "cleanup_loop w ((sid, sim) # rest) =
     (if \<not> owned sim then cleanup_loop w rest
      else (case simctl_shutdown w (udid sim) of
              Inl _ \<Rightarrow> [Shutdown (udid sim)]
            | Inr _ \<Rightarrow> [Shutdown (udid sim)])
           @ (case simctl_delete w (udid sim) of
                Inl _ \<Rightarrow> [Delete (udid sim)]
              | Inr _ \<Rightarrow> [Delete (udid sim)])
           @ cleanup_loop w rest)"

definition cleanupAllSimulators :: "world \<Rightarrow> registry \<Rightarrow> registry \<times> command list" where
  "cleanupAllSimulators w reg = (managedSimulators_clear reg, cleanup_loop w reg)"

subsection \<open>The tool \<^verbatim>\<open>start_simulator\<close>\<close>

text \<open>
  Each handler is modelled in two layers: the body of its \<^verbatim>\<open>try\<close>, which returns
  the thrown Error or the success text together with the registry afterwards and the
  commands issued, and the handler itself, which turns the outcome into a tool result.
  The optional parameter \<^verbatim>\<open>type\<close> is a \<open>string option\<close>; \<^verbatim>\<open>type || "iPhone"\<close>
  takes the default for an absent and for an empty string (\<open>start_keyword\<close>). The
  device name is the session id, an underscore and the keyword in lower case with
  hyphens for white space (\<open>start_deviceName\<close>).
\<close>

definition start_keyword :: "string option \<Rightarrow> string" where
  "start_keyword ty = (case ty of None \<Rightarrow> ''iPhone''
                       | Some t \<Rightarrow> if t = [] then ''iPhone'' else t)"

definition start_deviceName :: "string \<Rightarrow> string \<Rightarrow> string" where
  "start_deviceName sid keyword = sid @ ''_'' @ replace_spaces False (toLowerCase keyword)"

definition start_simulator_try ::
    "world \<Rightarrow> registry \<Rightarrow> string \<Rightarrow> string option
       \<Rightarrow> (thrown + string) \<times> registry \<times> command list" where
  "start_simulator_try w reg sid ty =
     (case managedSimulators_get reg sid of
        Some existing \<Rightarrow>
          (Inl (AlreadyActive,
             ''A simulator is already running for session '' @ quoted sid @ '': ''
             @ quoted (name existing) @ '' ('' @ udid existing
             @ ''). Call destroy_simulator first.''), reg, [])
      | None \<Rightarrow>
          let keyword = start_keyword ty
          in (case findDeviceType w keyword of
                Inl e \<Rightarrow> (Inl e, reg, [ListDeviceTypes])
              | Inr deviceType \<Rightarrow>
                 (case findLatestRuntime w of
                    Inl e \<Rightarrow> (Inl e, reg, [ListDeviceTypes, ListRuntimes])
                  | Inr runtime \<Rightarrow>
                     let deviceName = start_deviceName sid keyword;
                         create = Create deviceName (dt_identifier deviceType) runtime
                     in (case simctl_create w deviceName (dt_identifier deviceType) runtime of
                           Inl m \<Rightarrow>
                             (Inl (CollaboratorError, m), reg,
                              [ListDeviceTypes, ListRuntimes, create])
                         | Inr new_udid \<Rightarrow>
                            (case simctl_boot w new_udid of
                               Inl m \<Rightarrow>
                                 (Inl (CollaboratorError, m), reg,
                                  [ListDeviceTypes, ListRuntimes, create, Boot new_udid])
                             | Inr _ \<Rightarrow>
                                (case open_Simulator_app w of
                                   Inl m \<Rightarrow>
                                     (Inl (CollaboratorError, m), reg,
                                      [ListDeviceTypes, ListRuntimes, create, Boot new_udid,
                                       OpenSimulatorApp])
                                 | Inr _ \<Rightarrow>
                                     (Inr (''Simulator started: '' @ quoted deviceName
                                           @ '' ('' @ dt_name deviceType @ '', '' @ new_udid
                                           @ '')''),
                                      managedSimulators_set reg sid
                                        \<lparr>udid = new_udid, name = deviceName, owned = True,
                                         orientation = Auto\<rparr>,
                                      [ListDeviceTypes, ListRuntimes, create, Boot new_udid,
                                       OpenSimulatorApp])))))))"

definition start_simulator ::
    "world \<Rightarrow> registry \<Rightarrow> string \<Rightarrow> string option
       \<Rightarrow> tool_result \<times> registry \<times> command list" where
  "start_simulator w reg sid ty =
     (case start_simulator_try w reg sid ty of
        (r, reg', issued) \<Rightarrow> (handler_result ''Error starting simulator: '' r, reg', issued))"

subsection \<open>The tool \<^verbatim>\<open>destroy_simulator\<close>\<close>

definition destroy_simulator_try ::
    "world \<Rightarrow> registry \<Rightarrow> string \<Rightarrow> (thrown + string) \<times> registry \<times> command list" where
  "destroy_simulator_try w reg sid =
     (case managedSimulators_get reg sid of
        None \<Rightarrow>
          (Inl (NotActive, ''No simulator is running for session '' @ quoted sid @ ''.''),
           reg, [])
      | Some sim \<Rightarrow>
          if owned sim
          then (case simctl_shutdown w (udid sim) of
                  Inl m \<Rightarrow> (Inl (CollaboratorError, m), reg, [Shutdown (udid sim)])
                | Inr _ \<Rightarrow>
                   (case simctl_delete w (udid sim) of
                      Inl m \<Rightarrow>
                        (Inl (CollaboratorError, m), reg,
                         [Shutdown (udid sim), Delete (udid sim)])
                    | Inr _ \<Rightarrow>
                        (Inr (''Simulator destroyed: '' @ quoted (name sim)
                              @ '' ('' @ udid sim @ '')''),
                         managedSimulators_delete reg sid,
                         [Shutdown (udid sim), Delete (udid sim)])))
          else (Inr (''Detached from simulator: '' @ quoted (name sim)
                     @ '' ('' @ udid sim @ '')''),
                managedSimulators_delete reg sid, []))"

definition destroy_simulator ::
    "world \<Rightarrow> registry \<Rightarrow> string \<Rightarrow> tool_result \<times> registry \<times> command list" where
  "destroy_simulator w reg sid =
     (case destroy_simulator_try w reg sid of
        (r, reg', issued) \<Rightarrow> (handler_result ''Error destroying simulator: '' r, reg', issued))"

subsection \<open>The tool \<^verbatim>\<open>attach_simulator\<close>\<close>

text \<open>
  The search of the device listing: the inner loop stops at the first device of a
  runtime with the UDID, the outer loop at the first runtime where one was found.
\<close>

fun find_in_runtime :: "string \<Rightarrow> device list \<Rightarrow> device option" where
  "find_in_runtime u [] = None"
| "find_in_runtime u (d # ds) = (if dev_udid d = u then Some d else find_in_runtime u ds)"

fun find_device :: "string \<Rightarrow> device list list \<Rightarrow> device option" where
  "find_device u [] = None"
| "find_device u (rt # rts) =
     (case find_in_runtime u rt of Some d \<Rightarrow> Some d | None \<Rightarrow> find_device u rts)"

definition attach_simulator_try ::
    "world \<Rightarrow> registry \<Rightarrow> string \<Rightarrow> string
       \<Rightarrow> (thrown + string) \<times> registry \<times> command list" where
  "attach_simulator_try w reg sid u =
     (case managedSimulators_get reg sid of
        Some existing \<Rightarrow>
          (Inl (AlreadyActive,
             ''Session '' @ quoted sid @ '' is already attached to simulator ''
             @ quoted (name existing) @ '' ('' @ udid existing
             @ ''). Call destroy_simulator first.''), reg, [])
      | None \<Rightarrow>
         (case simctl_list_devices w of
            Inl m \<Rightarrow> (Inl (CollaboratorError, m), reg, [ListDevices])
          | Inr devices \<Rightarrow>
             (case find_device u devices of
                None \<Rightarrow>
                  (Inl (InstanceNotFound,
                     ''No simulator found with UDID '' @ quoted u @ ''.''),
                   reg, [ListDevices])
              | Some found \<Rightarrow>
                  if dev_state found \<noteq> ''Booted''
                  then (Inl (InstanceNotBooted,
                          ''Simulator '' @ quoted (dev_name found) @ '' ('' @ u
                          @ '') is not booted (state: '' @ dev_state found @ '').''),
                        reg, [ListDevices])
                  else (Inr (''Attached to simulator: '' @ quoted (dev_name found)
                             @ '' ('' @ u @ '')''),
                        managedSimulators_set reg sid
                          \<lparr>udid = u, name = dev_name found, owned = False,
                           orientation = Auto\<rparr>,
                        [ListDevices]))))"

definition attach_simulator ::
    "world \<Rightarrow> registry \<Rightarrow> string \<Rightarrow> string \<Rightarrow> tool_result \<times> registry \<times> command list" where
  "attach_simulator w reg sid u =
     (case attach_simulator_try w reg sid u of
        (r, reg', issued) \<Rightarrow> (handler_result ''Error attaching to simulator: '' r, reg', issued))"

subsection \<open>The input boundary of \<^verbatim>\<open>attach_simulator\<close>\<close>

text \<open>
  The parameter schemas given to \<^verbatim>\<open>server.tool\<close>. \<^verbatim>\<open>sessionIdSchema\<close> is
  \<^verbatim>\<open>z.string().max(128)\<close>. The schema of \<^verbatim>\<open>udid\<close> is the anchored regular expression
  of five groups of 8, 4, 4, 4 and 12 hexadecimal digits separated by hyphens: 36
  characters, hyphens at the positions 8, 13, 18 and 23, hexadecimal digits elsewhere.
\<close>

definition sessionIdSchema :: "string \<Rightarrow> bool" where
  "sessionIdSchema sid = (length sid \<le> 128)"

definition is_hex :: "char \<Rightarrow> bool" where
  "is_hex c = (c \<in> set ''0123456789ABCDEFabcdef'')"

fun hex_groups :: "nat list \<Rightarrow> string \<Rightarrow> bool" where
  "hex_groups [] s = (s = [])"
| "hex_groups [n] s = (length s = n \<and> list_all is_hex s)"
| "hex_groups (n # m # ns) s =
     (list_all is_hex (take n s) \<and> length (take n s) = n
      \<and> (case drop n s of [] \<Rightarrow> False
          | c # rest \<Rightarrow> c = CHR ''-'' \<and> hex_groups (m # ns) rest))"

definition udidSchema :: "string \<Rightarrow> bool" where
  "udidSchema u = hex_groups [8, 4, 4, 4, 12] u"

text \<open>
  Modelled from the spec: the dispatch of a tool call, which the MCP server library
  performs and which is not among the sources. The arguments are parsed against the
  schemas registered with the tool, and the handler runs only when they pass; otherwise
  the call is answered with an invalid-parameters failure (the input error of the
  specification, for a malformed identifier) and the handler never runs.
\<close>

datatype 'a tool_call = InvalidParams | Handled 'a

definition attach_simulator_call ::
    "world \<Rightarrow> registry \<Rightarrow> string \<Rightarrow> string
       \<Rightarrow> tool_result tool_call \<times> registry \<times> command list" where
  "attach_simulator_call w reg sid u =
     (if sessionIdSchema sid \<and> udidSchema u
      then (case attach_simulator w reg sid u of
              (r, reg', issued) \<Rightarrow> (Handled r, reg', issued))
      else (InvalidParams, reg, []))"

section \<open>Example inputs\<close>

text \<open>
  A collaborator on which every command succeeds: two device types, three runtimes of
  which one is an available iOS runtime, and a device listing with one booted and one
  shut down simulator. The example registry holds one owned session, as
  \<open>start_simulator\<close> leaves it.
\<close>

definition example_world :: world where
  "example_world =
     \<lparr>simctl_list_devicetypes =
        Inr [\<lparr>dt_name = ''iPhone 16 Pro'', dt_identifier = ''SimDeviceType.iPhone-16-Pro''\<rparr>,
             \<lparr>dt_name = ''iPad Air'', dt_identifier = ''SimDeviceType.iPad-Air''\<rparr>],
      simctl_list_runtimes =
        Inr [\<lparr>rt_name = ''iOS 17.2'', rt_identifier = ''SimRuntime.iOS-17-2'',
              isAvailable = True\<rparr>,
             \<lparr>rt_name = ''iOS 18.0'', rt_identifier = ''SimRuntime.iOS-18-0'',
              isAvailable = False\<rparr>,
             \<lparr>rt_name = ''watchOS 11.0'', rt_identifier = ''SimRuntime.watchOS-11-0'',
              isAvailable = True\<rparr>],
      simctl_create = (\<lambda>deviceName deviceType runtime.
        Inr ''0A1B2C3D-1111-2222-3333-444455556666''),
      simctl_boot = (\<lambda>u. Inr ()),
      open_Simulator_app = Inr (),
      simctl_shutdown = (\<lambda>u. Inr ()),
      simctl_delete = (\<lambda>u. Inr ()),
      simctl_list_devices =
        Inr [[\<lparr>dev_udid = ''0A1B2C3D-1111-2222-3333-444455556666'',
               dev_name = ''qa1_iphone'', dev_state = ''Booted''\<rparr>],
             [\<lparr>dev_udid = ''FFFFFFFF-0000-0000-0000-000000000000'',
               dev_name = ''old'', dev_state = ''Shutdown''\<rparr>]]\<rparr>"

definition example_simulator :: managed_simulator where
  "example_simulator =
     \<lparr>udid = ''0A1B2C3D-1111-2222-3333-444455556666'', name = ''qa1_iphone'',
      owned = True, orientation = Auto\<rparr>"

definition example_registry :: registry where
  "example_registry = [(''qa1'', example_simulator)]"

text \<open>
  Two rectangles on a landscape screen of 844 by 390 points. The first has the
  coordinate \<open>x\<close> that the JSON literal \<^verbatim>\<open>33.333333333333336\<close> denotes, a third of
  a point as a device of scale 3 reports it; the second lies on half points.
\<close>

definition fractional_frame :: Frame where
  "fractional_frame =
     \<lparr>frame_x = 4691249611844267 / 2 ^ 47, frame_y = 0, frame_width = 100,
      frame_height = 50\<rparr>"

definition half_point_frame :: Frame where
  "half_point_frame =
     \<lparr>frame_x = 25 / 2, frame_y = 301 / 2, frame_width = 100, frame_height = 89 / 2\<rparr>"

section \<open>Properties of JavaScript numbers\<close>

text \<open>The exponent that \<open>floor_log2\<close> computes is the binary exponent of its argument.\<close>

lemma floor_log2_bounds:
  assumes "0 < q"
  shows "2 powi floor_log2 q \<le> q \<and> q < 2 powi (floor_log2 q + 1)"
proof (cases "1 \<le> q")
  case True
  define n where "n = \<lfloor>q\<rfloor>"
  have n: "0 < n" using True by (simp add: n_def)
  have e: "floor_log2 q = bitlen n - 1"
    using True by (simp add: floor_log2_def n_def)
  have b1: "1 \<le> bitlen n" using n by (simp add: bitlen_alt_def)
  from bitlen_bounds [OF n]
  have lo: "2 ^ nat (bitlen n - 1) \<le> n" and hi: "n < 2 ^ nat (bitlen n)" by simp_all
  have "(2::rat) powi (bitlen n - 1) = of_int (2 ^ nat (bitlen n - 1))"
    using b1 by (simp add: power_int_nonneg_exp)
  also have "\<dots> \<le> of_int n" using lo by (simp only: of_int_le_iff)
  also have "\<dots> \<le> q" by (simp add: n_def)
  finally have A: "2 powi floor_log2 q \<le> q" by (simp add: e)
  have "n + 1 \<le> 2 ^ nat (bitlen n)" using hi by simp
  then have "(of_int (n + 1) :: rat) \<le> of_int (2 ^ nat (bitlen n))"
    by (simp only: of_int_le_iff)
  moreover have "q < of_int (n + 1)" using floor_correct [of q] by (simp add: n_def)
  ultimately have "q < of_int (2 ^ nat (bitlen n))" by linarith
  also have "\<dots> = 2 powi (bitlen n)"
    using b1 by (simp add: power_int_nonneg_exp)
  finally have B: "q < 2 powi (floor_log2 q + 1)" by (simp add: e)
  from A B show ?thesis ..
next
  case False
  define r where "r = 1 / q"
  define m where "m = \<lfloor>r\<rfloor>"
  define k where "k = bitlen m - 1"
  have r1: "1 < r" using False assms by (simp add: r_def)
  have m: "0 < m" using r1 by (simp add: m_def)
  have b1: "1 \<le> bitlen m" using m by (simp add: bitlen_alt_def)
  have k0: "0 \<le> k" using b1 by (simp add: k_def)
  from bitlen_bounds [OF m]
  have lo: "2 ^ nat k \<le> m" and hi: "m < 2 ^ nat (bitlen m)" by (simp_all add: k_def)
  have "(of_int (2 ^ nat k) :: rat) \<le> of_int m" using lo by (simp only: of_int_le_iff)
  also have "\<dots> \<le> r" by (simp add: m_def)
  finally have rlo: "2 powi k \<le> r" using k0 by (simp add: power_int_nonneg_exp)
  have "m + 1 \<le> 2 ^ nat (bitlen m)" using hi by simp
  then have "(of_int (m + 1) :: rat) \<le> of_int (2 ^ nat (bitlen m))"
    by (simp only: of_int_le_iff)
  moreover have "r < of_int (m + 1)" using floor_correct [of r] by (simp add: m_def)
  ultimately have "r < of_int (2 ^ nat (bitlen m))" by linarith
  then have rhi: "r < 2 powi (k + 1)"
    using b1 by (simp add: power_int_nonneg_exp k_def)
  have q: "q = 1 / r" by (simp add: r_def)
  have pos: "(0::rat) < 2 powi k" "(0::rat) < 2 powi (k + 1)" by simp_all
  have qhi: "q \<le> 2 powi (- k)"
    unfolding q power_int_minus_divide using rlo pos r1 by (simp add: frac_le)
  have qlo: "2 powi (- (k + 1)) < q"
    unfolding q power_int_minus_divide using rhi pos r1 by (simp add: frac_less2)
  have e: "floor_log2 q = (if q = 2 powi (- k) then - k else - (k + 1))"
    using False by (simp add: floor_log2_def Let_def k_def m_def r_def)
  show ?thesis
  proof (cases "q = 2 powi (- k)")
    case True
    have "(2::rat) powi (- k) < 2 powi (- k + 1)"
      by (rule power_int_strict_increasing) simp_all
    with True e show ?thesis by simp
  next
    case ne: False
    with qhi have "q < 2 powi (- k)" by simp
    with qlo e ne show ?thesis by simp
  qed
qed

text \<open>Rounding to an integer moves a value by at most one half.\<close>

lemma round_half_even_near: "\<bar>of_int (round_half_even r) - r\<bar> \<le> 1 / 2"
  unfolding round_half_even_def Let_def using floor_correct [of r] by auto

lemma round_half_even_of_int: "round_half_even (of_int m) = m"
  by (simp add: round_half_even_def Let_def)

lemma power_int_two_less_imp: "(2::rat) powi a < 2 powi b \<Longrightarrow> a < b"
proof (rule ccontr)
  assume lt: "(2::rat) powi a < 2 powi b" and "\<not> a < b"
  then have "b \<le> a" by simp
  then have "(2::rat) powi b \<le> 2 powi a" by (intro power_int_increasing) simp_all
  with lt show False by simp
qed

text \<open>
  A multiple \<open>n / 2 ^ k\<close> of a power of two with \<open>\<bar>n\<bar> < 2 ^ 53\<close> is a double: rounding
  leaves it as it is. So a subtraction of two such values whose exact result is again
  such a value does not round.
\<close>

lemma round_to_double_dyadic:
  assumes n: "\<bar>n\<bar> < 2 ^ 53" and k: "k \<le> 1074"
  shows "round_to_double (of_int n / 2 ^ k) = of_int n / 2 ^ k"
proof (cases "n = 0")
  case True
  then show ?thesis by (simp add: round_to_double_def)
next
  case False
  define q :: rat where "q = of_int n / 2 ^ k"
  define e where "e = floor_log2 \<bar>q\<bar>"
  define j where "j = max e (- 1022) - 52"
  have q0: "q \<noteq> 0" using False by (simp add: q_def)
  have qk: "q = of_int n * 2 powi (- int k)"
    by (simp add: q_def power_int_minus_divide)
  have "(of_int \<bar>n\<bar> :: rat) < of_int (2 ^ 53)" using n by (simp only: of_int_less_iff)
  then have "\<bar>q\<bar> < 2 ^ 53 * 2 powi (- int k)"
    unfolding qk abs_mult by (simp add: power_int_minus_divide divide_strict_right_mono)
  also have "\<dots> = 2 powi (53 - int k)"
    by (simp add: power_int_diff power_int_minus_divide)
  finally have up: "\<bar>q\<bar> < 2 powi (53 - int k)" .
  have "2 powi e \<le> \<bar>q\<bar>"
    unfolding e_def using floor_log2_bounds [of "\<bar>q\<bar>"] q0 by simp
  with up have "(2::rat) powi e < 2 powi (53 - int k)" by simp
  then have e: "e < 53 - int k" by (rule power_int_two_less_imp)
  have j: "j \<le> - int k" using e k by (simp add: j_def max_def)
  define t where "t = nat (- int k - j)"
  have t: "int t = - int k - j" using j by (simp add: t_def)
  have "q / 2 powi j = of_int n * 2 powi (- int k - j)"
    unfolding qk by (simp add: power_int_diff)
  also have "\<dots> = of_int n * 2 ^ t"
    unfolding t [symmetric] by (simp add: power_int_of_nat)
  also have "\<dots> = of_int (n * 2 ^ t)" by simp
  finally have scaled: "q / 2 powi j = of_int (n * 2 ^ t)" .
  have "round_to_double q = of_int (round_half_even (q / 2 powi j)) * 2 powi j"
    using q0 by (simp add: round_to_double_def Let_def e_def j_def)
  also have "\<dots> = of_int (n * 2 ^ t) * 2 powi j"
    by (simp only: scaled round_half_even_of_int)
  also have "\<dots> = of_int n * (2 powi (int t) * 2 powi j)"
    by (simp add: power_int_of_nat)
  also have "2 powi (int t) * 2 powi j = (2::rat) powi (- int k)"
    unfolding t by (simp add: power_int_diff)
  finally show ?thesis by (simp add: qk q_def [symmetric])
qed

lemma number_sub_dyadic:
  assumes "\<bar>a - b\<bar> < 2 ^ 53" and "k \<le> 1074"
  shows "number_sub (of_int a / 2 ^ k) (of_int b / 2 ^ k) = of_int (a - b) / 2 ^ k"
proof -
  have "(of_int a / 2 ^ k :: rat) - of_int b / 2 ^ k = of_int (a - b) / 2 ^ k"
    by (simp add: diff_divide_distrib)
  then show ?thesis
    unfolding number_sub_def using round_to_double_dyadic [OF assms] by simp
qed

lemma number_sub_sub_dyadic:
  assumes "\<bar>a - b\<bar> < 2 ^ 53" and "\<bar>a - b - c\<bar> < 2 ^ 53" and "k \<le> 1074"
  shows "number_sub (number_sub (of_int a / 2 ^ k) (of_int b / 2 ^ k)) (of_int c / 2 ^ k)
         = of_int (a - b - c) / 2 ^ k"
proof -
  have "number_sub (of_int a / 2 ^ k) (of_int b / 2 ^ k) = of_int (a - b) / 2 ^ k"
    using assms(1,3) by (rule number_sub_dyadic)
  moreover have "number_sub (of_int (a - b) / 2 ^ k) (of_int c / 2 ^ k)
                 = of_int (a - b - c) / 2 ^ k"
    using assms(2,3) by (rule number_sub_dyadic)
  ultimately show ?thesis by (simp only:)
qed

lemma grid_numberE:
  assumes "grid_number k q"
  obtains n where "q = of_int n / 2 ^ k" and "\<bar>n\<bar> \<le> 2 ^ 51"
proof
  define n where "n = \<lfloor>q * 2 ^ k\<rfloor>"
  from assms have eq: "of_int n = q * 2 ^ k" and b: "\<bar>q * 2 ^ k\<bar> \<le> 2 ^ 51"
    by (simp_all add: grid_number_def n_def)
  show "q = of_int n / 2 ^ k" using eq by (simp add: field_simps)
  have "(of_int \<bar>n\<bar> :: rat) \<le> of_int (2 ^ 51)" using b eq by simp
  then show "\<bar>n\<bar> \<le> 2 ^ 51" by (simp only: of_int_le_iff)
qed

text \<open>
  The model on known values: the double of the literal \<^verbatim>\<open>0.1\<close>, and the subtraction
  \<^verbatim>\<open>0.3 - 0.1\<close>, whose result is the double of \<^verbatim>\<open>0.19999999999999998\<close> and not the
  double of \<^verbatim>\<open>0.2\<close>.
\<close>

lemma round_to_double_one_tenth:
  "round_to_double (1 / 10) = 3602879701896397 / 2 ^ 55"
  by code_simp

lemma number_sub_three_tenths_one_tenth:
  "number_sub (round_to_double (3 / 10)) (round_to_double (1 / 10))
     = round_to_double (19999999999999998 / 10 ^ 17)
   \<and> round_to_double (19999999999999998 / 10 ^ 17) \<noteq> round_to_double (2 / 10)"
  by code_simp

section \<open>Properties of the coordinate transformation\<close>

text \<open>
  Claim C4, as stated, fails. On a landscape screen of 844 by 390 points take the
  rectangle whose \<open>x\<close> is the double of the literal \<^verbatim>\<open>33.333333333333336\<close>. The
  landscape-right transform computes \<^verbatim>\<open>844 - x - 100\<close>, which rounds; the
  landscape-left transform of the result, with the dimensions of the transformed root
  frame, returns an \<open>x\<close> of \<open>293203100740267 / 2 ^ 43\<close> (printed 33.33333333333337), not
  the \<open>x\<close> it started from.
\<close>

theorem transformFrame_round_trip_counterexample:
  "round_to_double (33333333333333336 / 10 ^ 15) = frame_x fractional_frame
   \<and> transformFrame (transformFrame fractional_frame Landscape_right 844 390)
       (inverse_orientation Landscape_right)
       (frame_width (transformFrame (root_frame 844 390) Landscape_right 844 390))
       (frame_height (transformFrame (root_frame 844 390) Landscape_right 844 390))
     = fractional_frame\<lparr>frame_x := 293203100740267 / 2 ^ 43\<rparr>
   \<and> fractional_frame\<lparr>frame_x := 293203100740267 / 2 ^ 43\<rparr> \<noteq> fractional_frame"
  by code_simp

text \<open>
  The expression \<^verbatim>\<open>s - p - d\<close> and the expression \<^verbatim>\<open>s - (s - p - d) - d\<close> that undoes
  it: on the grid neither rounds, and the second returns \<open>p\<close>.
\<close>

lemma number_sub_sub_undo:
  assumes k: "k \<le> 1074"
    and a: "grid_number k s" and b: "grid_number k p" and c: "grid_number k d"
  shows "number_sub (number_sub s (number_sub (number_sub s p) d)) d = p"
proof -
  from a obtain sa where sa: "s = of_int sa / 2 ^ k" "\<bar>sa\<bar> \<le> 2 ^ 51" by (rule grid_numberE)
  from b obtain pa where pa: "p = of_int pa / 2 ^ k" "\<bar>pa\<bar> \<le> 2 ^ 51" by (rule grid_numberE)
  from c obtain da where da: "d = of_int da / 2 ^ k" "\<bar>da\<bar> \<le> 2 ^ 51" by (rule grid_numberE)
  have inner: "number_sub (number_sub s p) d = of_int (sa - pa - da) / 2 ^ k"
    unfolding sa(1) pa(1) da(1)
    by (rule number_sub_sub_dyadic) (use sa(2) pa(2) da(2) k in auto)
  have "number_sub (number_sub s (of_int (sa - pa - da) / 2 ^ k)) d
        = of_int (sa - (sa - pa - da) - da) / 2 ^ k"
    unfolding sa(1) da(1)
    by (rule number_sub_sub_dyadic) (use sa(2) pa(2) da(2) k in auto)
  also have "sa - (sa - pa - da) - da = pa" by simp
  finally have "number_sub (number_sub s (of_int (sa - pa - da) / 2 ^ k)) d = p"
    by (simp only: pa(1))
  then show ?thesis by (simp only: inner)
qed

text \<open>
  Claim C4, amended. For every rectangle and screen dimensions on one grid (coordinates
  that are multiples of one power of two \<open>2 ^ (- k)\<close>, \<open>k \<le> 1074\<close>, of magnitude at most
  \<open>2 ^ 51\<close> steps; the integers up to \<open>2 ^ 51\<close> for \<open>k = 0\<close>) and for every orientation,
  transforming the rectangle and then transforming the result for the inverse
  orientation gives the rectangle back. Each transform is given the screen dimensions of
  the frame it is applied in: the first the reported dimensions \<open>screenW\<close>, \<open>screenH\<close>,
  the second the dimensions of the transformed root frame (for the two landscape
  orientations these are \<open>screenH\<close>, \<open>screenW\<close>).
\<close>

theorem transformFrame_round_trip_on_grid:
  assumes k: "k \<le> 1074"
    and r: "grid_frame k r"
    and W: "grid_number k screenW" and H: "grid_number k screenH"
  shows "transformFrame (transformFrame r ori screenW screenH)
     (inverse_orientation ori)
     (frame_width (transformFrame (root_frame screenW screenH) ori screenW screenH))
     (frame_height (transformFrame (root_frame screenW screenH) ori screenW screenH))
   = r"
proof -
  from r have x: "grid_number k (frame_x r)" and y: "grid_number k (frame_y r)"
    and w: "grid_number k (frame_width r)" and h: "grid_number k (frame_height r)"
    by (simp_all add: grid_frame_def)
  note undo = number_sub_sub_undo [OF k]
  show ?thesis
  proof (cases ori)
    case Auto
    then show ?thesis by simp
  next
    case Portrait
    then show ?thesis by simp
  next
    case Landscape_right
    then show ?thesis
      by (simp add: root_frame_def undo [OF W x w])
  next
    case Upside_down
    then show ?thesis
      by (simp add: root_frame_def undo [OF W x w] undo [OF H y h])
  next
    case Landscape_left
    then show ?thesis
      by (simp add: root_frame_def undo [OF H y h])
  qed
qed

theorem transformFrame_round_trip_on_grid_witness:
  "(1::nat) \<le> 1074 \<and> grid_frame 1 half_point_frame
   \<and> grid_number 1 844 \<and> grid_number 1 390
   \<and> transformFrame (transformFrame half_point_frame Landscape_right 844 390)
       (inverse_orientation Landscape_right)
       (frame_width (transformFrame (root_frame 844 390) Landscape_right 844 390))
       (frame_height (transformFrame (root_frame 844 390) Landscape_right 844 390))
     = half_point_frame"
proof -
  have k: "(1::nat) \<le> 1074" by simp
  have r: "grid_frame 1 half_point_frame" by code_simp
  have W: "grid_number 1 844" by code_simp
  have H: "grid_number 1 390" by code_simp
  from k r W H transformFrame_round_trip_on_grid [OF k r W H] show ?thesis
    by (intro conjI)
qed

text \<open>
  Claim C9. The transform preserves the area of a rectangle, for every orientation: the
  landscape transforms swap width and height, the others keep them. No arithmetic
  touches the two fields, so this holds for every rectangle, fractional ones included.
\<close>

theorem transformFrame_preserves_area:
  "frame_width (transformFrame r ori screenW screenH)
     * frame_height (transformFrame r ori screenW screenH)
   = frame_width r * frame_height r"
  by (cases ori) (simp_all add: mult.commute)

subsection \<open>The tree transform\<close>

lemma erase_frames_transformElement:
  "erase_frames (transformElement ts ori W H el) = erase_frames el"
proof (induction el)
  case (Element fr ax ch other)
  have "map_option (map (erase_frames \<circ> transformElement ts ori W H)) ch
        = map_option (map erase_frames) ch"
  proof (cases ch)
    case None
    then show ?thesis by simp
  next
    case (Some cs)
    have "map (erase_frames \<circ> transformElement ts ori W H) cs = map erase_frames cs"
      using Element.IH Some by (intro map_cong) auto
    with Some show ?thesis by simp
  qed
  then show ?case by (simp add: option.map_comp)
qed

lemma concat_map_flatten:
  assumes "map (map f \<circ> (flatten \<circ> t)) cs = map (map g \<circ> flatten) cs"
  shows "map f (concat (map flatten (map t cs))) = map g (concat (map flatten cs))"
proof -
  have "map f (concat (map flatten (map t cs))) = concat (map (map f \<circ> (flatten \<circ> t)) cs)"
    by (simp only: map_concat map_map)
  also have "\<dots> = concat (map (map g \<circ> flatten) cs)"
    by (simp only: assms)
  also have "\<dots> = map g (concat (map flatten cs))"
    by (simp only: map_concat map_map)
  finally show ?thesis .
qed

lemma frame_info_transformElement:
  "map (\<lambda>n. (frame n, AXFrame n)) (flatten (transformElement ts ori W H el))
   = map (rewritten_frame ts ori W H) (flatten el)"
proof (induction el)
  case (Element fr ax ch other)
  have top: "(frame (transformElement ts ori W H (Element fr ax ch other)),
              AXFrame (transformElement ts ori W H (Element fr ax ch other)))
             = rewritten_frame ts ori W H (Element fr ax ch other)"
    by (cases fr) (auto simp: rewritten_frame_def has_extent_def)
  show ?case
  proof (cases ch)
    case None
    with top show ?thesis by simp
  next
    case (Some cs)
    have "map (map (\<lambda>n. (frame n, AXFrame n)) \<circ> (flatten \<circ> transformElement ts ori W H)) cs
          = map (map (rewritten_frame ts ori W H) \<circ> flatten) cs"
      using Element.IH Some by (intro map_cong) auto
    then have "map (\<lambda>n. (frame n, AXFrame n))
                 (concat (map flatten (map (transformElement ts ori W H) cs)))
               = map (rewritten_frame ts ori W H) (concat (map flatten cs))"
      by (rule concat_map_flatten)
    with top Some show ?thesis by simp
  qed
qed

text \<open>
  Claim C8. The tree transform changes nothing but \<open>frame\<close> and \<open>AXFrame\<close>: with these
  two fields erased, the transformed trees equal the input trees, so every other field,
  the nodes, the children and their order are preserved. And, node by node in traversal
  order, the \<open>frame\<close> and \<open>AXFrame\<close> after the transform are those of
  \<open>rewritten_frame\<close>: untouched for a node without a frame or with a frame of width 0
  and height 0, the transformed frame and its serialization for every other node. This
  holds for every orientation, the non-portrait ones in particular, and whatever the
  conversion of a number to a string is.
\<close>

theorem transformElementTree_rewrites_only_frames:
  "map erase_frames (transformElementTree toString els ori screenW screenH)
     = map erase_frames els
   \<and> map (\<lambda>n. (frame n, AXFrame n))
       (concat (map flatten (transformElementTree toString els ori screenW screenH)))
     = map (rewritten_frame toString ori screenW screenH) (concat (map flatten els))"
proof
  show "map erase_frames (transformElementTree toString els ori screenW screenH)
        = map erase_frames els"
    by (simp add: transformElementTree_def erase_frames_transformElement)
  have "map (map (\<lambda>n. (frame n, AXFrame n))
             \<circ> (flatten \<circ> transformElement toString ori screenW screenH)) els
        = map (map (rewritten_frame toString ori screenW screenH) \<circ> flatten) els"
    by (simp add: frame_info_transformElement)
  then show "map (\<lambda>n. (frame n, AXFrame n))
       (concat (map flatten (transformElementTree toString els ori screenW screenH)))
     = map (rewritten_frame toString ori screenW screenH) (concat (map flatten els))"
    unfolding transformElementTree_def by (rule concat_map_flatten)
qed

section \<open>Properties of provisioning and of the shutdown sweep\<close>

text \<open>
  Claim C7. For every runtime catalog the collaborator returns, \<open>findLatestRuntime\<close>
  returns the identifier of the last entry of the sub-list, in catalog order, of the
  entries that are available and are iOS runtimes (the code recognises these by the
  name starting with "iOS"); it fails with the no-available-runtime error exactly when
  that sub-list is empty.
\<close>

theorem findLatestRuntime_last_available_ios:
  "findLatestRuntime (w\<lparr>simctl_list_runtimes := Inr runtimes\<rparr>)
     = (if filter available_ios runtimes = []
        then Inl (NoAvailableRuntime,
               ''No available iOS runtimes found. Install one via Xcode.'')
        else Inr (rt_identifier (last (filter available_ios runtimes))))
   \<and> ((\<exists>m. findLatestRuntime (w\<lparr>simctl_list_runtimes := Inr runtimes\<rparr>)
             = Inl (NoAvailableRuntime, m))
        = (filter available_ios runtimes = []))"
  by (simp add: findLatestRuntime_def Let_def last_conv_nth)

lemma cleanup_loop_eq:
  "cleanup_loop w reg
   = concat (map (\<lambda>entry. [Shutdown (udid (snd entry)), Delete (udid (snd entry))])
       (filter (\<lambda>entry. owned (snd entry)) reg))"
  by (induction w reg rule: cleanup_loop.induct) (auto split: sum.splits)

text \<open>
  Claim C6. Over any registry and whatever the commands answer, the shutdown sweep
  issues exactly one shutdown followed by one delete for each entry with
  \<open>owned = True\<close>, in registry order, and nothing else: an entry with \<open>owned = False\<close>
  contributes no command. Afterwards the registry is empty.
\<close>

theorem cleanupAllSimulators_owned_only:
  "cleanupAllSimulators w reg
   = ([], concat (map (\<lambda>entry. [Shutdown (udid (snd entry)), Delete (udid (snd entry))])
            (filter (\<lambda>entry. owned (snd entry)) reg)))"
  by (simp add: cleanupAllSimulators_def managedSimulators_clear_def cleanup_loop_eq)

section \<open>Properties of the session lifecycle\<close>

subsection \<open>The registry\<close>

lemma managedSimulators_get_set_same:
  "managedSimulators_get (managedSimulators_set reg sid sim) sid = Some sim"
  by (induction reg sid sim rule: managedSimulators_set.induct)
     (auto simp: managedSimulators_get_def)

lemma managedSimulators_get_set_other:
  "other \<noteq> sid \<Longrightarrow>
   managedSimulators_get (managedSimulators_set reg sid sim) other = managedSimulators_get reg other"
  by (induction reg sid sim rule: managedSimulators_set.induct)
     (auto simp: managedSimulators_get_def)

lemma managedSimulators_get_delete_same:
  "managedSimulators_get (managedSimulators_delete reg sid) sid = None"
  by (induction reg) (auto simp: managedSimulators_get_def managedSimulators_delete_def)

text \<open>
  The operations keep the session ids of the list distinct, so a registry built from
  the empty one by \<^verbatim>\<open>set\<close> and \<^verbatim>\<open>delete\<close> holds one handle per session id.
\<close>

lemma keys_managedSimulators_set:
  "set (map fst (managedSimulators_set reg sid sim)) = insert sid (set (map fst reg))"
  by (induction reg sid sim rule: managedSimulators_set.induct) auto

lemma distinct_managedSimulators_set:
  "distinct (map fst reg) \<Longrightarrow> distinct (map fst (managedSimulators_set reg sid sim))"
proof (induction reg sid sim rule: managedSimulators_set.induct)
  case (1 sid sim)
  then show ?case by simp
next
  case (2 k v rest sid sim)
  then show ?case
    using keys_managedSimulators_set [of rest sid sim] by auto
qed

lemma distinct_managedSimulators_delete:
  "distinct (map fst reg) \<Longrightarrow> distinct (map fst (managedSimulators_delete reg sid))"
  by (simp add: managedSimulators_delete_def distinct_map_filter)

subsection \<open>Starting a session twice\<close>

lemma start_simulator_try_when_active:
  "managedSimulators_get reg sid = Some sim \<Longrightarrow>
   start_simulator_try w reg sid ty =
     (Inl (AlreadyActive,
        ''A simulator is already running for session '' @ quoted sid @ '': ''
        @ quoted (name sim) @ '' ('' @ udid sim @ ''). Call destroy_simulator first.''),
      reg, [])"
  by (simp add: start_simulator_try_def)

lemma start_simulator_try_success:
  assumes "start_simulator_try w reg sid ty = (Inr t, reg', issued)"
  shows "\<exists>u. reg' = managedSimulators_set reg sid
           \<lparr>udid = u, name = start_deviceName sid (start_keyword ty), owned = True,
            orientation = Auto\<rparr>"
  using assms
  by (auto simp: start_simulator_try_def Let_def split: option.splits sum.splits)

lemma handler_result_ok:
  "\<not> isError (handler_result pre r) \<Longrightarrow> \<exists>t. r = Inr t"
  by (cases r) (auto simp: handler_result_def)

text \<open>
  Claim start_simulator_twice_already_active. When a first \<open>start_simulator\<close> for a session id has succeeded, the session
  is registered with the handle it created (owned, orientation auto, the synthesized
  name), and a second \<open>start_simulator\<close> for the same id, with any type keyword and
  whatever the collaborators would answer, fails with the already-active error: the
  message contains the display name and the UDID of the registered simulator, the
  registry is returned unchanged and no command is issued.
\<close>

theorem start_simulator_twice_already_active:
  assumes first: "start_simulator w reg sid ty = (r, reg', issued)" and ok: "\<not> isError r"
  shows "\<exists>sim. managedSimulators_get reg' sid = Some sim
           \<and> name sim = start_deviceName sid (start_keyword ty)
           \<and> owned sim \<and> orientation sim = Auto
           \<and> (let message = ''A simulator is already running for session '' @ quoted sid
                    @ '': '' @ quoted (name sim) @ '' ('' @ udid sim
                    @ ''). Call destroy_simulator first.''
              in start_simulator_try w' reg' sid ty' = (Inl (AlreadyActive, message), reg', [])
               \<and> start_simulator w' reg' sid ty' =
                   (\<lparr>isError = True,
                     result_text = errorWithTroubleshooting
                       (''Error starting simulator: '' @ message)\<rparr>, reg', [])
               \<and> sublist (name sim) message \<and> sublist (udid sim) message)"
proof -
  obtain r0 where body: "start_simulator_try w reg sid ty = (r0, reg', issued)"
    and r: "r = handler_result ''Error starting simulator: '' r0"
    using first by (auto simp: start_simulator_def split: prod.splits)
  from ok r obtain t where "r0 = Inr t"
    using handler_result_ok by blast
  with body obtain u where reg': "reg' = managedSimulators_set reg sid
           \<lparr>udid = u, name = start_deviceName sid (start_keyword ty), owned = True,
            orientation = Auto\<rparr>"
    using start_simulator_try_success by blast
  define sim where "sim = \<lparr>udid = u, name = start_deviceName sid (start_keyword ty),
    owned = True, orientation = Auto\<rparr>"
  define message where "message = ''A simulator is already running for session ''
    @ quoted sid @ '': '' @ quoted (name sim) @ '' ('' @ udid sim
    @ ''). Call destroy_simulator first.''"
  have g: "managedSimulators_get reg' sid = Some sim"
    by (simp add: reg' sim_def managedSimulators_get_set_same)
  have second: "start_simulator_try w' reg' sid ty' = (Inl (AlreadyActive, message), reg', [])"
    unfolding message_def using g by (rule start_simulator_try_when_active)
  have tool: "start_simulator w' reg' sid ty' =
      (\<lparr>isError = True,
        result_text = errorWithTroubleshooting (''Error starting simulator: '' @ message)\<rparr>,
       reg', [])"
    by (simp add: start_simulator_def second handler_result_def)
  have "message = (''A simulator is already running for session '' @ quoted sid @ '': ''
      @ [CHR 0x22]) @ name sim @ ([CHR 0x22] @ '' ('' @ udid sim
      @ ''). Call destroy_simulator first.'')"
    by (simp add: message_def quoted_def)
  then have n: "sublist (name sim) message"
    unfolding sublist_def by blast
  have "message = (''A simulator is already running for session '' @ quoted sid @ '': ''
      @ quoted (name sim) @ '' ('') @ udid sim @ ''). Call destroy_simulator first.''"
    by (simp add: message_def)
  then have i: "sublist (udid sim) message"
    unfolding sublist_def by blast
  have fields: "name sim = start_deviceName sid (start_keyword ty)" "owned sim"
      "orientation sim = Auto"
    by (simp_all add: sim_def)
  from g fields second tool n i show ?thesis
    unfolding message_def Let_def by blast
qed

theorem start_simulator_twice_already_active_witness:
  "start_simulator example_world [] ''qa1'' None =
     (\<lparr>isError = False,
       result_text = ''Simulator started: '' @ quoted ''qa1_iphone''
         @ '' (iPhone 16 Pro, 0A1B2C3D-1111-2222-3333-444455556666)''\<rparr>,
      example_registry,
      [ListDeviceTypes, ListRuntimes,
       Create ''qa1_iphone'' ''SimDeviceType.iPhone-16-Pro'' ''SimRuntime.iOS-17-2'',
       Boot ''0A1B2C3D-1111-2222-3333-444455556666'', OpenSimulatorApp])
   \<and> start_simulator example_world example_registry ''qa1'' (Some ''iPad'') =
       (\<lparr>isError = True,
         result_text = errorWithTroubleshooting
           (''Error starting simulator: A simulator is already running for session ''
            @ quoted ''qa1'' @ '': '' @ quoted ''qa1_iphone''
            @ '' (0A1B2C3D-1111-2222-3333-444455556666). Call destroy_simulator first.'')\<rparr>,
        example_registry, [])"
proof -
  have first: "start_simulator example_world [] ''qa1'' None =
     (\<lparr>isError = False,
       result_text = ''Simulator started: '' @ quoted ''qa1_iphone''
         @ '' (iPhone 16 Pro, 0A1B2C3D-1111-2222-3333-444455556666)''\<rparr>,
      example_registry,
      [ListDeviceTypes, ListRuntimes,
       Create ''qa1_iphone'' ''SimDeviceType.iPhone-16-Pro'' ''SimRuntime.iOS-17-2'',
       Boot ''0A1B2C3D-1111-2222-3333-444455556666'', OpenSimulatorApp])"
    by code_simp
  have ok: "\<not> isError \<lparr>isError = False,
       result_text = ''Simulator started: '' @ quoted ''qa1_iphone''
         @ '' (iPhone 16 Pro, 0A1B2C3D-1111-2222-3333-444455556666)''\<rparr>"
    by simp
  have reg: "managedSimulators_get example_registry ''qa1'' = Some example_simulator"
    by (simp add: managedSimulators_get_def example_registry_def)
  from start_simulator_twice_already_active [OF first ok, of example_world "Some ''iPad''"] reg
  have "start_simulator example_world example_registry ''qa1'' (Some ''iPad'') =
       (\<lparr>isError = True,
         result_text = errorWithTroubleshooting
           (''Error starting simulator: '' @ ''A simulator is already running for session ''
            @ quoted ''qa1'' @ '': '' @ quoted (name example_simulator)
            @ '' ('' @ udid example_simulator @ ''). Call destroy_simulator first.'')\<rparr>,
        example_registry, [])"
    by (auto simp: Let_def)
  then have "start_simulator example_world example_registry ''qa1'' (Some ''iPad'') =
       (\<lparr>isError = True,
         result_text = errorWithTroubleshooting
           (''Error starting simulator: A simulator is already running for session ''
            @ quoted ''qa1'' @ '': '' @ quoted ''qa1_iphone''
            @ '' (0A1B2C3D-1111-2222-3333-444455556666). Call destroy_simulator first.'')\<rparr>,
        example_registry, [])"
    by (simp add: example_simulator_def)
  with first show ?thesis by (rule conjI)
qed

subsection \<open>Bringing the simulator to the foreground\<close>

text \<open>
  Claim C3, as stated, fails: on an absent session, with create and boot succeeding, a
  failure of \<^verbatim>\<open>open -a Simulator.app\<close> makes \<open>start_simulator\<close> report an error and
  leave the registry without the session.
\<close>

theorem start_simulator_foreground_failure_counterexample:
  "start_simulator (example_world\<lparr>open_Simulator_app := Inl ''open: Simulator.app failed''\<rparr>)
     [] ''qa1'' None =
     (\<lparr>isError = True,
       result_text = errorWithTroubleshooting
         ''Error starting simulator: open: Simulator.app failed''\<rparr>,
      [],
      [ListDeviceTypes, ListRuntimes,
       Create ''qa1_iphone'' ''SimDeviceType.iPhone-16-Pro'' ''SimRuntime.iOS-17-2'',
       Boot ''0A1B2C3D-1111-2222-3333-444455556666'', OpenSimulatorApp])
   \<and> managedSimulators_get [] ''qa1'' = None"
  by code_simp

text \<open>
  Claim C3, amended. On an absent session, when the device type and the runtime resolve
  and create and boot succeed, the foreground step decides the outcome: if it fails,
  \<open>start_simulator\<close> reports its error and the registry is unchanged, so the session
  stays unregistered; if it succeeds, the handle with the new UDID, the synthesized
  name, \<open>owned = True\<close> and orientation auto is inserted and success is reported.
\<close>

theorem start_simulator_foreground_step_decides:
  assumes "managedSimulators_get reg sid = None"
    and "findDeviceType w (start_keyword ty) = Inr deviceType"
    and "findLatestRuntime w = Inr runtime"
    and "simctl_create w (start_deviceName sid (start_keyword ty))
           (dt_identifier deviceType) runtime = Inr new_udid"
    and "simctl_boot w new_udid = Inr ()"
  shows "start_simulator w reg sid ty =
    (case open_Simulator_app w of
       Inl m \<Rightarrow>
         (\<lparr>isError = True,
           result_text = errorWithTroubleshooting (''Error starting simulator: '' @ m)\<rparr>,
          reg,
          [ListDeviceTypes, ListRuntimes,
           Create (start_deviceName sid (start_keyword ty)) (dt_identifier deviceType) runtime,
           Boot new_udid, OpenSimulatorApp])
     | Inr _ \<Rightarrow>
         (\<lparr>isError = False,
           result_text = ''Simulator started: ''
             @ quoted (start_deviceName sid (start_keyword ty))
             @ '' ('' @ dt_name deviceType @ '', '' @ new_udid @ '')''\<rparr>,
          managedSimulators_set reg sid
            \<lparr>udid = new_udid, name = start_deviceName sid (start_keyword ty), owned = True,
             orientation = Auto\<rparr>,
          [ListDeviceTypes, ListRuntimes,
           Create (start_deviceName sid (start_keyword ty)) (dt_identifier deviceType) runtime,
           Boot new_udid, OpenSimulatorApp]))"
  using assms
  by (simp add: start_simulator_def start_simulator_try_def handler_result_def Let_def
      split: sum.splits)

theorem start_simulator_foreground_step_decides_witness:
  "start_simulator (example_world\<lparr>open_Simulator_app := Inl ''open: Simulator.app failed''\<rparr>)
     [] ''qa1'' None =
     (\<lparr>isError = True,
       result_text = errorWithTroubleshooting
         (''Error starting simulator: '' @ ''open: Simulator.app failed'')\<rparr>,
      [],
      [ListDeviceTypes, ListRuntimes,
       Create (start_deviceName ''qa1'' (start_keyword None)) ''SimDeviceType.iPhone-16-Pro''
         ''SimRuntime.iOS-17-2'',
       Boot ''0A1B2C3D-1111-2222-3333-444455556666'', OpenSimulatorApp])
   \<and> start_simulator example_world [] ''qa1'' None =
     (\<lparr>isError = False,
       result_text = ''Simulator started: '' @ quoted (start_deviceName ''qa1'' (start_keyword None))
         @ '' ('' @ ''iPhone 16 Pro'' @ '', '' @ ''0A1B2C3D-1111-2222-3333-444455556666''
         @ '')''\<rparr>,
      managedSimulators_set [] ''qa1''
        \<lparr>udid = ''0A1B2C3D-1111-2222-3333-444455556666'',
         name = start_deviceName ''qa1'' (start_keyword None), owned = True,
         orientation = Auto\<rparr>,
      [ListDeviceTypes, ListRuntimes,
       Create (start_deviceName ''qa1'' (start_keyword None)) ''SimDeviceType.iPhone-16-Pro''
         ''SimRuntime.iOS-17-2'',
       Boot ''0A1B2C3D-1111-2222-3333-444455556666'', OpenSimulatorApp])"
proof -
  let ?failing = "example_world\<lparr>open_Simulator_app := Inl ''open: Simulator.app failed''\<rparr>"
  let ?dt = "\<lparr>dt_name = ''iPhone 16 Pro'', dt_identifier = ''SimDeviceType.iPhone-16-Pro''\<rparr>"
  have absent: "managedSimulators_get [] ''qa1'' = None"
    by (simp add: managedSimulators_get_def)
  have dt: "findDeviceType example_world (start_keyword None) = Inr ?dt"
    by code_simp
  have dt': "findDeviceType ?failing (start_keyword None) = Inr ?dt"
    by code_simp
  have rt: "findLatestRuntime example_world = Inr ''SimRuntime.iOS-17-2''"
    by code_simp
  have rt': "findLatestRuntime ?failing = Inr ''SimRuntime.iOS-17-2''"
    by code_simp
  have create: "simctl_create example_world (start_deviceName ''qa1'' (start_keyword None))
      (dt_identifier ?dt) ''SimRuntime.iOS-17-2'' = Inr ''0A1B2C3D-1111-2222-3333-444455556666''"
    by (simp add: example_world_def)
  have create': "simctl_create ?failing (start_deviceName ''qa1'' (start_keyword None))
      (dt_identifier ?dt) ''SimRuntime.iOS-17-2'' = Inr ''0A1B2C3D-1111-2222-3333-444455556666''"
    by (simp add: example_world_def)
  have boot: "simctl_boot example_world ''0A1B2C3D-1111-2222-3333-444455556666'' = Inr ()"
    by (simp add: example_world_def)
  have boot': "simctl_boot ?failing ''0A1B2C3D-1111-2222-3333-444455556666'' = Inr ()"
    by (simp add: example_world_def)
  have opened: "open_Simulator_app example_world = Inr ()"
    by (simp add: example_world_def)
  have failed: "open_Simulator_app ?failing = Inl ''open: Simulator.app failed''"
    by simp
  from start_simulator_foreground_step_decides [OF absent dt' rt' create' boot'] failed
       start_simulator_foreground_step_decides [OF absent dt rt create boot] opened
  show ?thesis by simp
qed

subsection \<open>Destroying a session\<close>

text \<open>
  What \<open>destroy_simulator\<close> does on an active session: the registry entry is deleted
  only on the paths where no teardown command failed.
\<close>

lemma destroy_simulator_outcomes:
  assumes "managedSimulators_get reg sid = Some sim"
  shows "destroy_simulator w reg sid =
    (if owned sim
     then (case simctl_shutdown w (udid sim) of
             Inl m \<Rightarrow>
               (\<lparr>isError = True,
                 result_text = errorWithTroubleshooting (''Error destroying simulator: '' @ m)\<rparr>,
                reg, [Shutdown (udid sim)])
           | Inr _ \<Rightarrow>
              (case simctl_delete w (udid sim) of
                 Inl m \<Rightarrow>
                   (\<lparr>isError = True,
                     result_text =
                       errorWithTroubleshooting (''Error destroying simulator: '' @ m)\<rparr>,
                    reg, [Shutdown (udid sim), Delete (udid sim)])
               | Inr _ \<Rightarrow>
                   (\<lparr>isError = False,
                     result_text = ''Simulator destroyed: '' @ quoted (name sim)
                       @ '' ('' @ udid sim @ '')''\<rparr>,
                    managedSimulators_delete reg sid,
                    [Shutdown (udid sim), Delete (udid sim)])))
     else (\<lparr>isError = False,
            result_text = ''Detached from simulator: '' @ quoted (name sim)
              @ '' ('' @ udid sim @ '')''\<rparr>,
           managedSimulators_delete reg sid, []))"
  using assms
  by (simp add: destroy_simulator_def destroy_simulator_try_def handler_result_def
      split: sum.splits)

lemma destroy_simulator_success_removes_entry:
  assumes "destroy_simulator w reg sid = (r, reg', issued)" and "\<not> isError r"
  shows "managedSimulators_get reg' sid = None"
proof (cases "managedSimulators_get reg sid")
  case None
  with assms show ?thesis
    by (auto simp: destroy_simulator_def destroy_simulator_try_def handler_result_def)
next
  case (Some sim)
  from assms show ?thesis
    unfolding destroy_simulator_outcomes [OF Some]
    by (auto simp: managedSimulators_get_delete_same split: if_splits sum.splits)
qed

text \<open>
  Claim C1 at a failing input: the session is active and owned and the shutdown command
  fails (the simulator is already shut down). \<open>destroy_simulator\<close> reports the error,
  does not attempt the delete, and returns the registry with the session still in it.
\<close>

theorem destroy_simulator_shutdown_failure_keeps_entry:
  "destroy_simulator
     (example_world\<lparr>simctl_shutdown :=
        (\<lambda>u. Inl ''Unable to shutdown device in current state: Shutdown'')\<rparr>)
     example_registry ''qa1'' =
     (\<lparr>isError = True,
       result_text = errorWithTroubleshooting
         ''Error destroying simulator: Unable to shutdown device in current state: Shutdown''\<rparr>,
      example_registry,
      [Shutdown ''0A1B2C3D-1111-2222-3333-444455556666''])
   \<and> managedSimulators_get example_registry ''qa1'' = Some example_simulator"
  by code_simp

subsection \<open>Attaching to a registered instance\<close>

text \<open>
  Claim C2, as stated, fails: with the instance already registered under the session
  \<open>qa1\<close>, attaching it under the session \<open>dev\<close> succeeds, and the registry then maps
  both session ids to the same UDID.
\<close>

theorem attach_simulator_duplicate_udid_counterexample:
  "attach_simulator example_world example_registry ''dev''
     ''0A1B2C3D-1111-2222-3333-444455556666'' =
     (\<lparr>isError = False,
       result_text = ''Attached to simulator: '' @ quoted ''qa1_iphone''
         @ '' (0A1B2C3D-1111-2222-3333-444455556666)''\<rparr>,
      [(''qa1'', example_simulator),
       (''dev'', \<lparr>udid = ''0A1B2C3D-1111-2222-3333-444455556666'', name = ''qa1_iphone'',
          owned = False, orientation = Auto\<rparr>)],
      [ListDevices])
   \<and> udid example_simulator = ''0A1B2C3D-1111-2222-3333-444455556666''"
  by code_simp

text \<open>
  Claim C2, amended. For two distinct session ids, attaching under one of them a UDID
  that is registered under the other is not rejected: when the attaching session id is
  absent from the registry and the instance is listed and booted, \<open>attach_simulator\<close>
  succeeds, inserts the handle (the UDID, the observed name, \<open>owned = False\<close>,
  orientation auto) and leaves the entry of the other session as it was, so that both
  session ids map to the same UDID.
\<close>

theorem attach_simulator_accepts_registered_udid:
  assumes "other \<noteq> sid"
    and "managedSimulators_get reg other = Some sim"
    and "udid sim = u"
    and "managedSimulators_get reg sid = None"
    and "simctl_list_devices w = Inr devices"
    and "find_device u devices = Some found"
    and "dev_state found = ''Booted''"
  shows "attach_simulator w reg sid u =
     (\<lparr>isError = False,
       result_text = ''Attached to simulator: '' @ quoted (dev_name found)
         @ '' ('' @ u @ '')''\<rparr>,
      managedSimulators_set reg sid
        \<lparr>udid = u, name = dev_name found, owned = False, orientation = Auto\<rparr>,
      [ListDevices])
   \<and> managedSimulators_get
        (managedSimulators_set reg sid
           \<lparr>udid = u, name = dev_name found, owned = False, orientation = Auto\<rparr>) sid
      = Some \<lparr>udid = u, name = dev_name found, owned = False, orientation = Auto\<rparr>
   \<and> managedSimulators_get
        (managedSimulators_set reg sid
           \<lparr>udid = u, name = dev_name found, owned = False, orientation = Auto\<rparr>) other
      = Some sim"
  using assms
  by (simp add: attach_simulator_def attach_simulator_try_def handler_result_def
      managedSimulators_get_set_same managedSimulators_get_set_other)

theorem attach_simulator_accepts_registered_udid_witness:
  "attach_simulator example_world example_registry ''dev''
     ''0A1B2C3D-1111-2222-3333-444455556666'' =
     (\<lparr>isError = False,
       result_text = ''Attached to simulator: '' @ quoted ''qa1_iphone''
         @ '' (0A1B2C3D-1111-2222-3333-444455556666)''\<rparr>,
      managedSimulators_set example_registry ''dev''
        \<lparr>udid = ''0A1B2C3D-1111-2222-3333-444455556666'', name = ''qa1_iphone'',
         owned = False, orientation = Auto\<rparr>,
      [ListDevices])
   \<and> managedSimulators_get
        (managedSimulators_set example_registry ''dev''
           \<lparr>udid = ''0A1B2C3D-1111-2222-3333-444455556666'', name = ''qa1_iphone'',
            owned = False, orientation = Auto\<rparr>) ''dev''
      = Some \<lparr>udid = ''0A1B2C3D-1111-2222-3333-444455556666'', name = ''qa1_iphone'',
               owned = False, orientation = Auto\<rparr>
   \<and> managedSimulators_get
        (managedSimulators_set example_registry ''dev''
           \<lparr>udid = ''0A1B2C3D-1111-2222-3333-444455556666'', name = ''qa1_iphone'',
            owned = False, orientation = Auto\<rparr>) ''qa1''
      = Some example_simulator"
proof -
  let ?found = "\<lparr>dev_udid = ''0A1B2C3D-1111-2222-3333-444455556666'',
                  dev_name = ''qa1_iphone'', dev_state = ''Booted''\<rparr>"
  let ?devices = "[[?found],
             [\<lparr>dev_udid = ''FFFFFFFF-0000-0000-0000-000000000000'',
               dev_name = ''old'', dev_state = ''Shutdown''\<rparr>]]"
  have distinct_ids: "''qa1'' \<noteq> ''dev''" by simp
  have other: "managedSimulators_get example_registry ''qa1'' = Some example_simulator"
    by (simp add: managedSimulators_get_def example_registry_def)
  have same: "udid example_simulator = ''0A1B2C3D-1111-2222-3333-444455556666''"
    by (simp add: example_simulator_def)
  have absent: "managedSimulators_get example_registry ''dev'' = None"
    by (simp add: managedSimulators_get_def example_registry_def)
  have listing: "simctl_list_devices example_world = Inr ?devices"
    by (simp add: example_world_def)
  have found: "find_device ''0A1B2C3D-1111-2222-3333-444455556666'' ?devices = Some ?found"
    by simp
  have booted: "dev_state ?found = ''Booted''" by simp
  from attach_simulator_accepts_registered_udid [OF distinct_ids other same absent listing found booted]
  show ?thesis by simp
qed

subsection \<open>The input boundary of attach\<close>

text \<open>
  The schema of \<open>udid\<close> accepts exactly the strings of five groups of 8, 4, 4, 4 and 12
  hexadecimal digits joined by hyphens.
\<close>

lemma hex_groups_step:
  "hex_groups (n # m # ns) s
   = (\<exists>a rest. s = a @ CHR ''-'' # rest \<and> length a = n \<and> list_all is_hex a
        \<and> hex_groups (m # ns) rest)"
proof
  assume h: "hex_groups (n # m # ns) s"
  then obtain c rest where d: "drop n s = c # rest" and c: "c = CHR ''-''"
    and r: "hex_groups (m # ns) rest"
    by (auto split: list.splits)
  have s: "s = take n s @ CHR ''-'' # rest"
    using d c by (metis append_take_drop_id)
  from h have "length (take n s) = n" "list_all is_hex (take n s)"
    by simp_all
  with s r show "\<exists>a rest. s = a @ CHR ''-'' # rest \<and> length a = n \<and> list_all is_hex a
        \<and> hex_groups (m # ns) rest"
    by blast
next
  assume "\<exists>a rest. s = a @ CHR ''-'' # rest \<and> length a = n \<and> list_all is_hex a
        \<and> hex_groups (m # ns) rest"
  then show "hex_groups (n # m # ns) s" by auto
qed

lemma udidSchema_iff:
  "udidSchema u
   = (\<exists>a b c d e. u = a @ ''-'' @ b @ ''-'' @ c @ ''-'' @ d @ ''-'' @ e
        \<and> length a = 8 \<and> length b = 4 \<and> length c = 4 \<and> length d = 4 \<and> length e = 12
        \<and> list_all is_hex (a @ b @ c @ d @ e))"
  unfolding udidSchema_def hex_groups_step hex_groups.simps(2)
  by (simp only: list_all_append append_Cons append_Nil) blast

text \<open>
  Claim attach_simulator_call_validates_udid. A call of \<open>attach_simulator\<close> whose \<open>udid\<close> does not match the format is
  rejected at the input boundary: the answer is the invalid-parameters failure, the
  registry is unchanged and no command has been issued. Conversely, whenever the device
  listing is queried, the \<open>udid\<close> is well-formed.
\<close>

theorem attach_simulator_call_validates_udid:
  "(\<not> udidSchema u \<longrightarrow> attach_simulator_call w reg sid u = (InvalidParams, reg, []))
   \<and> (ListDevices \<in> set (snd (snd (attach_simulator_call w reg sid u))) \<longrightarrow> udidSchema u)"
  by (auto simp: attach_simulator_call_def split: prod.splits)

theorem attach_simulator_call_validates_udid_witness:
  "\<not> udidSchema ''booted''
   \<and> attach_simulator_call example_world example_registry ''dev'' ''booted''
       = (InvalidParams, example_registry, [])
   \<and> ListDevices \<in> set (snd (snd (attach_simulator_call example_world example_registry ''dev''
        ''0A1B2C3D-1111-2222-3333-444455556666'')))
   \<and> udidSchema ''0A1B2C3D-1111-2222-3333-444455556666''"
proof -
  have bad: "\<not> udidSchema ''booted''" by code_simp
  have queried: "ListDevices \<in> set (snd (snd (attach_simulator_call example_world
      example_registry ''dev'' ''0A1B2C3D-1111-2222-3333-444455556666'')))"
    by code_simp
  from attach_simulator_call_validates_udid [of "''booted''" example_world example_registry "''dev''"] bad
  have rejected: "attach_simulator_call example_world example_registry ''dev'' ''booted''
       = (InvalidParams, example_registry, [])"
    by blast
  from attach_simulator_call_validates_udid [of "''0A1B2C3D-1111-2222-3333-444455556666''" example_world example_registry
      "''dev''"] queried
  have good: "udidSchema ''0A1B2C3D-1111-2222-3333-444455556666''"
    by blast
  from bad rejected queried good show ?thesis by blast
qed

end
